theory Spec2Isabelle
  imports Main "HOL-Library.AList"
begin

section \<open>Store names (\<open>sanitizeStoreName\<close>, \<open>extractRepoInfoFromUrl\<close>, \<open>getAutoStoreId\<close>)\<close>

text \<open>
  A JavaScript string is modelled as a \<open>string\<close> whose characters are the code units
  \<open>0 .. 255\<close>. On these code units \<open>String.prototype.toLowerCase\<close> maps \<open>A-Z\<close> to
  \<open>a-z\<close> and the Latin-1 capitals \<open>0xC0 .. 0xDE\<close> (except the multiplication sign
  \<open>0xD7\<close>) to the code unit 32 above; every other code unit is kept.
\<close>

definition code_unit :: "char \<Rightarrow> nat" where
  "code_unit c = of_char c"

definition is_upper_ascii :: "char \<Rightarrow> bool" where
  "is_upper_ascii c = (65 \<le> code_unit c \<and> code_unit c \<le> 90)"

definition is_lower_ascii :: "char \<Rightarrow> bool" where
  "is_lower_ascii c = (97 \<le> code_unit c \<and> code_unit c \<le> 122)"

definition is_digit :: "char \<Rightarrow> bool" where
  "is_digit c = (48 \<le> code_unit c \<and> code_unit c \<le> 57)"

definition is_upper_latin1 :: "char \<Rightarrow> bool" where
  "is_upper_latin1 c = (192 \<le> code_unit c \<and> code_unit c \<le> 222 \<and> code_unit c \<noteq> 215)"

definition lower_char :: "char \<Rightarrow> char" where
  "lower_char c =
     (if is_upper_ascii c \<or> is_upper_latin1 c then char_of (code_unit c + 32) else c)"

definition toLowerCase :: "string \<Rightarrow> string" where
  "toLowerCase s = map lower_char s"

text \<open>
  The character class \<open>[^a-z0-9-]\<close> under the flags \<open>gi\<close>: a code unit matches when
  it is neither an ASCII letter of either case, nor a digit, nor the hyphen.
\<close>

definition not_store_char :: "char \<Rightarrow> bool" where
  "not_store_char c =
     (\<not> (is_lower_ascii c \<or> is_upper_ascii c \<or> is_digit c \<or> c = CHR ''-''))"

text \<open>\<open>name.replace(/[^a-z0-9-]/gi, "-").toLowerCase()\<close>\<close>

definition sanitizeStoreName :: "string \<Rightarrow> string" where
  "sanitizeStoreName name =
     toLowerCase (map (\<lambda>c. if not_store_char c then CHR ''-'' else c) name)"

text \<open>The alphabet of a store id: lowercase ASCII letters, digits and the hyphen.\<close>

definition store_id_char :: "char \<Rightarrow> bool" where
  "store_id_char c = (is_lower_ascii c \<or> is_digit c \<or> c = CHR ''-'')"

text \<open>\<open>url.replace(/\.git$/, "")\<close>: a final \<open>.git\<close> is removed, nothing else.\<close>

definition strip_git_suffix :: "string \<Rightarrow> string" where
  "strip_git_suffix url =
     (if 4 \<le> length url \<and> drop (length url - 4) url = ''.git''
      then take (length url - 4) url else url)"

definition is_url_sep :: "char \<Rightarrow> bool" where
  "is_url_sep c = (c = CHR ''/'' \<or> c = CHR '':'')"

text \<open>
  \<open>String.prototype.split\<close> with a one-character separator class: the pieces between
  the separators, empty pieces included; the empty string splits into one empty piece.
\<close>

fun split_at :: "(char \<Rightarrow> bool) \<Rightarrow> string \<Rightarrow> string list" where
  "split_at sep [] = [[]]"
| "split_at sep (c # cs) =
     (if sep c then [] # split_at sep cs
      else (case split_at sep cs of
              [] \<Rightarrow> [[c]]
            | p # ps \<Rightarrow> (c # p) # ps))"

definition extractRepoInfoFromUrl :: "string \<Rightarrow> string" where
  "extractRepoInfoFromUrl url =
     (let cleanUrl = strip_git_suffix url;
          parts = split_at is_url_sep cleanUrl;
          nonEmptyParts = filter (\<lambda>p. 0 < length p) parts;
          fallback =
            (if nonEmptyParts = [] then ''unknown-repo''
             else if toLowerCase (last nonEmptyParts) = [] then ''unknown-repo''
             else toLowerCase (last nonEmptyParts))
      in if 2 \<le> length nonEmptyParts then
           (let repo = nonEmptyParts ! (length nonEmptyParts - 1);
                owner = nonEmptyParts ! (length nonEmptyParts - 2)
            in if repo \<noteq> [] \<and> owner \<noteq> [] then toLowerCase (owner @ ''-'' @ repo)
               else fallback)
         else fallback)"

text \<open>
  A call of a collaborator that is outside this file either returns a value or throws.
\<close>

datatype 'a call = Threw | Returned 'a



text \<open>The truth value JavaScript gives to a string that may be \<open>null\<close>.\<close>

fun truthy :: "string option \<Rightarrow> bool" where
  "truthy None = False"
| "truthy (Some s) = (s \<noteq> [])"







section \<open>The watcher of \<open>index.ts\<close>\<close>

text \<open>
  What the callback passed to \<open>fs.watch\<close> sees when an event is handled:
  \<open>path.join\<close>; \<open>fs.statSync\<close>, which throws or returns a stat object whose
  \<open>isFile()\<close> is the given boolean; \<open>isIgnoredByGit\<close> of \<open>./utils\<close>, called
  outside any \<open>try\<close> block, so that an exception of it would leave the callback;
  and whether the promise returned by \<open>uploadFile\<close> of \<open>./utils\<close> rejects.
\<close>

datatype stat_result = StatThrows | Stats bool

record world =
  path_join :: "string \<Rightarrow> string \<Rightarrow> string"
  statSync :: "string \<Rightarrow> stat_result"
  isIgnoredByGit :: "string \<Rightarrow> string \<Rightarrow> bool call"
  upload_rejects :: "string \<Rightarrow> string \<Rightarrow> string \<Rightarrow> bool"

text \<open>
  The observable steps of the callback. \<open>UploadFile store filePath filename\<close> is the
  call \<open>uploadFile(mxbai, options.store, filePath, filename)\<close>, the only place where
  the callback reaches the remote store client.
\<close>

datatype effect =
    ConsoleLog string string
  | StatSync string
  | IgnoreCheck string string
  | UploadFile string string string
  | ConsoleError string

datatype outcome = Completed | Uncaught

record fs_event =
  eventType :: string
  rawFilename :: "string option"

text \<open>
  The callback \<open>(eventType, rawFilename) => { ... }\<close>. The rejection handler attached
  with \<open>.catch\<close> runs after the callback has returned; its console output is listed
  with the event that started the upload.
\<close>

definition watch_callback :: "world \<Rightarrow> string \<Rightarrow> string \<Rightarrow> fs_event \<Rightarrow> effect list \<times> outcome" where
  "watch_callback w watchRoot store ev =
     (case rawFilename ev of
        None \<Rightarrow> ([], Completed)
      | Some filename \<Rightarrow>
          if filename = [] then ([], Completed)
          else
            (let filePath = path_join w watchRoot filename;
                 seen = [ConsoleLog (eventType ev) filePath, StatSync filePath]
             in case statSync w filePath of
                  StatThrows \<Rightarrow> (seen, Completed)
                | Stats isFile \<Rightarrow>
                    if \<not> isFile then (seen, Completed)
                    else
                      (case isIgnoredByGit w filePath watchRoot of
                         Threw \<Rightarrow> (seen @ [IgnoreCheck filePath watchRoot], Uncaught)
                       | Returned ignored \<Rightarrow>
                           if ignored then (seen @ [IgnoreCheck filePath watchRoot], Completed)
                           else
                             (seen @ [IgnoreCheck filePath watchRoot,
                                      UploadFile store filePath filename] @
                              (if upload_rejects w store filePath filename
                               then [ConsoleError filePath] else []),
                              Completed))))"

text \<open>
  The watch loop: the events are handled in the order of their arrival, each in the
  world of its own time; an exception that leaves the callback is uncaught and ends the
  process, and with it the loop.
\<close>

fun watch_loop :: "string \<Rightarrow> string \<Rightarrow> (world \<times> fs_event) list \<Rightarrow> effect list \<times> outcome" where
  "watch_loop watchRoot store [] = ([], Completed)"
| "watch_loop watchRoot store ((w, ev) # rest) =
     (case watch_callback w watchRoot store ev of
        (effs, Uncaught) \<Rightarrow> (effs, Uncaught)
      | (effs, Completed) \<Rightarrow>
          (case watch_loop watchRoot store rest of
             (effs', out) \<Rightarrow> (effs @ effs', out)))"

fun is_upload :: "effect \<Rightarrow> bool" where
  "is_upload (UploadFile store filePath filename) = True"
| "is_upload _ = False"

fun is_stat_or_ignore_check :: "effect \<Rightarrow> bool" where
  "is_stat_or_ignore_check (StatSync p) = True"
| "is_stat_or_ignore_check (IgnoreCheck p r) = True"
| "is_stat_or_ignore_check _ = False"

text \<open>An example world: \<open>/repo/a.ts\<close> is a regular file, nothing is ignored.\<close>

definition example_world :: "bool \<Rightarrow> world" where
  "example_world rejects =
     \<lparr> path_join = (\<lambda>a b. a @ ''/'' @ b),
       statSync = (\<lambda>p. if p = ''/repo/a.ts'' then Stats True
                        else if p = ''/repo/dir'' then Stats False else StatThrows),
       isIgnoredByGit = (\<lambda>p r. Returned (p = ''/repo/dist/bundle.js'')),
       upload_rejects = (\<lambda>s p f. rejects) \<rparr>"

definition change_of :: "string \<Rightarrow> fs_event" where
  "change_of f = \<lparr> eventType = ''change'', rawFilename = Some f \<rparr>"

section \<open>The stop hooks (\<open>hooks/stop.js\<close> and \<open>stop_osgrep.js\<close>)\<close>

text \<open>
  A JavaScript number: an integer of magnitude at most \<open>2^53\<close>, which a double holds
  exactly; a value of larger magnitude or an infinity (\<open>Large\<close>, the double itself is
  left open); a finite number that is not an integer; or \<open>NaN\<close>. A parsed JSON
  document is a value of \<open>json\<close>.
\<close>

datatype js_number = Integral int | Large | Fractional | NaN

datatype json =
    JNull
  | JBool bool
  | JNumber js_number
  | JString string
  | JArray "json list"
  | JObject "(string \<times> json) list"

text \<open>The truth value JavaScript gives to a parsed JSON value.\<close>

fun json_truthy :: "json \<Rightarrow> bool" where
  "json_truthy JNull = False"
| "json_truthy (JBool b) = b"
| "json_truthy (JNumber n) = (n \<noteq> Integral 0 \<and> n \<noteq> NaN)"
| "json_truthy (JString s) = (s \<noteq> [])"
| "json_truthy (JArray vs) = True"
| "json_truthy (JObject kvs) = True"

text \<open>
  The property accesses \<open>payload.cwd\<close> and \<open>hookData.session_id\<close>: on \<open>null\<close>
  the access throws a \<open>TypeError\<close>; an object gives the value of the property or
  \<open>undefined\<close> (\<open>None\<close>); no other JSON value has a property of these names.
\<close>

fun get_property :: "string \<Rightarrow> json \<Rightarrow> json option call" where
  "get_property k JNull = Threw"
| "get_property k (JObject kvs) = Returned (map_of kvs k)"
| "get_property k v = Returned None"

text \<open>
  The operating system as the hooks see it: the paths that exist, each with the content
  \<open>readFileSync\<close> returns or unreadable (\<open>readFileSync\<close> throws), the other
  processes (process id and full command line), and the process ids that have been sent
  \<open>SIGTERM\<close>.
\<close>

datatype file_entry = Unreadable | Content string

record os_state =
  files :: "string \<Rightarrow> file_entry option"
  procs :: "(int \<times> string) list"
  signalled :: "int list"

text \<open>
  The system call \<open>kill(pid, SIGTERM)\<close> fails, or signals some of the processes and
  possibly the hook itself (a process id of \<open>0\<close> or below addresses process groups).
\<close>

datatype kill_result = KillFails | KillSignals "int list" bool

text \<open>
  The platform functions: \<open>os.tmpdir()\<close>, \<open>process.cwd()\<close>, \<open>path.join\<close> of
  strings, \<open>JSON.parse\<close> (\<open>None\<close> when it throws), the string a template literal
  makes of a JSON value, the system call \<open>kill\<close>, whether \<open>unlink\<close> of an existing
  file fails, and the process ids that a spawned \<open>pkill -f pattern\<close> signals (none
  when \<open>pkill\<close> cannot be run).
\<close>

record platform =
  tmpdir :: string
  hook_cwd :: string
  join_paths :: "string list \<Rightarrow> string"
  json_parse :: "string \<Rightarrow> json option"
  js_to_string :: "json \<Rightarrow> string"
  sys_kill :: "(int \<times> string) list \<Rightarrow> int \<Rightarrow> kill_result"
  unlink_fails :: "string \<Rightarrow> bool"
  pkill :: "string \<Rightarrow> (int \<times> string) list \<Rightarrow> int list"

text \<open>
  \<open>process.kill(pid, "SIGTERM")\<close>: Node.js throws unless \<open>pid\<close> is a 32-bit
  integer, and throws when the system call fails; a signal that reaches the hook
  itself ends it.
\<close>

datatype kill_outcome = KillThrew | Killed os_state | KilledSelf os_state

definition process_kill :: "platform \<Rightarrow> os_state \<Rightarrow> js_number \<Rightarrow> kill_outcome" where
  "process_kill pf s n =
     (case n of
        Integral i \<Rightarrow>
          if i < - (2 ^ 31) \<or> 2 ^ 31 \<le> i then KillThrew
          else (case sys_kill pf (procs s) i of
                  KillFails \<Rightarrow> KillThrew
                | KillSignals ps self \<Rightarrow>
                    if self then KilledSelf (s\<lparr>signalled := signalled s @ ps\<rparr>)
                    else Killed (s\<lparr>signalled := signalled s @ ps\<rparr>))
      | Large \<Rightarrow> KillThrew
      | Fractional \<Rightarrow> KillThrew
      | NaN \<Rightarrow> KillThrew)"

text \<open>\<open>fs.unlinkSync(path)\<close>; \<open>None\<close> is the exception.\<close>

definition unlinkSync :: "platform \<Rightarrow> os_state \<Rightarrow> string \<Rightarrow> os_state option" where
  "unlinkSync pf s p =
     (if files s p = None \<or> unlink_fails pf p then None
      else Some (s\<lparr>files := (files s)(p := None)\<rparr>))"

text \<open>\<open>try { fs.unlinkSync(path); } catch {}\<close>\<close>

definition unlink_quietly :: "platform \<Rightarrow> os_state \<Rightarrow> string \<Rightarrow> os_state" where
  "unlink_quietly pf s p = (case unlinkSync pf s p of None \<Rightarrow> s | Some s' \<Rightarrow> s')"

text \<open>
  \<open>spawnSync("pkill", ["-f", "osgrep serve"], { stdio: "ignore" })\<close>; the result of
  the spawn is not looked at.
\<close>

definition pkill_fallback :: "platform \<Rightarrow> os_state \<Rightarrow> os_state" where
  "pkill_fallback pf s = s\<lparr>signalled := signalled s @ pkill pf ''osgrep serve'' (procs s)\<rparr>"

text \<open>\<open>data?.pid\<close>: the property \<open>pid\<close> of a parsed document, \<open>None\<close> for \<open>undefined\<close>.\<close>

fun pid_field :: "json \<Rightarrow> json option" where
  "pid_field (JObject kvs) = map_of kvs ''pid''"
| "pid_field _ = None"

text \<open>How a hook ends: it runs to its end, an exception leaves it, or a signal ends it.\<close>

datatype hook_exit = Exited | Crashed | Signalled

text \<open>
  \<open>readPayload()\<close> of \<open>hooks/stop.js\<close>; the standard input is \<open>None\<close> when
  reading it throws.
\<close>

definition readPayload :: "platform \<Rightarrow> string option \<Rightarrow> json" where
  "readPayload pf stdin =
     (case stdin of
        None \<Rightarrow> JObject []
      | Some raw \<Rightarrow>
          if raw = [] then JObject []
          else (case json_parse pf raw of None \<Rightarrow> JObject [] | Some v \<Rightarrow> v))"

text \<open>
  \<open>killPid(pid)\<close>: the new state, whether a process was signalled, and whether the
  hook is still running.
\<close>

definition killPid :: "platform \<Rightarrow> os_state \<Rightarrow> js_number \<Rightarrow> os_state \<times> bool \<times> bool" where
  "killPid pf s pid =
     (case process_kill pf s pid of
        KillThrew \<Rightarrow> (s, False, True)
      | Killed s' \<Rightarrow> (s', True, True)
      | KilledSelf s' \<Rightarrow> (s', True, False))"

text \<open>
  The first two statements of \<open>main()\<close> of \<open>hooks/stop.js\<close>,
  \<open>cwd = payload.cwd || process.cwd()\<close> and
  \<open>lockPath = path.join(cwd, ".osgrep", "server.json")\<close>. \<open>None\<close> is a
  \<open>TypeError\<close>: of the property access when the payload is \<open>null\<close>, of
  \<open>path.join\<close> when \<open>cwd\<close> is truthy and not a string.
\<close>

definition stop_lock_path :: "platform \<Rightarrow> string option \<Rightarrow> string option" where
  "stop_lock_path pf stdin =
     (case get_property ''cwd'' (readPayload pf stdin) of
        Threw \<Rightarrow> None
      | Returned c \<Rightarrow>
          (case c of
             None \<Rightarrow> Some (join_paths pf [hook_cwd pf, ''.osgrep'', ''server.json''])
           | Some v \<Rightarrow>
               if json_truthy v then
                 (case v of
                    JString d \<Rightarrow> Some (join_paths pf [d, ''.osgrep'', ''server.json''])
                  | _ \<Rightarrow> None)
               else Some (join_paths pf [hook_cwd pf, ''.osgrep'', ''server.json''])))"

text \<open>\<open>main()\<close> of \<open>hooks/stop.js\<close>, which nothing wraps in a \<open>try\<close> block.\<close>

definition stop_main :: "platform \<Rightarrow> string option \<Rightarrow> os_state \<Rightarrow> os_state \<times> hook_exit" where
  "stop_main pf stdin s =
     (case stop_lock_path pf stdin of
        None \<Rightarrow> (s, Crashed)
      | Some lockPath \<Rightarrow>
          (let (s1, killed, running) =
                 (case files s lockPath of
                    None \<Rightarrow> (s, False, True)
                  | Some entry \<Rightarrow>
                      (let (s', killed, running) =
                             (case entry of
                                Unreadable \<Rightarrow> (s, False, True)
                              | Content content \<Rightarrow>
                                  (case json_parse pf content of
                                     None \<Rightarrow> (s, False, True)
                                   | Some data \<Rightarrow>
                                       (case pid_field data of
                                          Some (JNumber pid) \<Rightarrow> killPid pf s pid
                                        | _ \<Rightarrow> (s, False, True))))
                       in if running then (unlink_quietly pf s' lockPath, killed, True)
                          else (s', killed, False)))
           in if \<not> running then (s1, Signalled)
              else (if \<not> killed then pkill_fallback pf s1 else s1, Exited)))"

text \<open>
  \<open>parseInt(text, 10)\<close>: leading white space, an optional sign and the longest run of
  decimal digits; \<open>NaN\<close> when there is no digit; a value beyond \<open>2^53\<close> is rounded
  to a double.
\<close>

definition is_js_space :: "char \<Rightarrow> bool" where
  "is_js_space c = (code_unit c \<in> {9, 10, 11, 12, 13, 32, 160})"

definition digits_value :: "string \<Rightarrow> int" where
  "digits_value ds = fold (\<lambda>c a. a * 10 + (int (code_unit c) - 48)) ds 0"

definition parseInt10 :: "string \<Rightarrow> js_number" where
  "parseInt10 text =
     (let t = dropWhile is_js_space text;
          negative = (t \<noteq> [] \<and> hd t = CHR ''-'');
          u = (if t \<noteq> [] \<and> (hd t = CHR ''-'' \<or> hd t = CHR ''+'') then tl t else t);
          ds = takeWhile is_digit u
      in if ds = [] then NaN
         else if 2 ^ 53 < digits_value ds then Large
         else Integral ((if negative then - 1 else 1) * digits_value ds))"

text \<open>
  \<open>path.join(os.tmpdir(), `osgrep-watch-${hookData.session_id}.pid`)\<close>; the template
  literal takes a string as it is.
\<close>

definition osgrep_pid_file :: "platform \<Rightarrow> json \<Rightarrow> string" where
  "osgrep_pid_file pf sid =
     join_paths pf
       [tmpdir pf,
        ''osgrep-watch-'' @ (case sid of JString t \<Rightarrow> t | _ \<Rightarrow> js_to_string pf sid) @ ''.pid'']"

text \<open>
  \<open>stop_osgrep.js\<close>: every step is inside \<open>try { ... } catch (e) { }\<close>, so an
  exception of reading or parsing the input, of the property access or of
  \<open>unlinkSync\<close> ends the clean-up and nothing else.
\<close>

definition stop_osgrep :: "platform \<Rightarrow> string option \<Rightarrow> os_state \<Rightarrow> os_state \<times> hook_exit" where
  "stop_osgrep pf stdin s =
     (case (case stdin of None \<Rightarrow> None | Some raw \<Rightarrow> json_parse pf raw) of
        None \<Rightarrow> (s, Exited)
      | Some hookData \<Rightarrow>
          (case get_property ''session_id'' hookData of
             Threw \<Rightarrow> (s, Exited)
           | Returned None \<Rightarrow> (s, Exited)
           | Returned (Some sid) \<Rightarrow>
               if json_truthy sid then
                 (let pidFile = osgrep_pid_file pf sid
                  in case files s pidFile of
                       None \<Rightarrow> (s, Exited)
                     | Some Unreadable \<Rightarrow> (s, Exited)
                     | Some (Content content) \<Rightarrow>
                         (case process_kill pf s (parseInt10 content) of
                            KillThrew \<Rightarrow> (unlink_quietly pf s pidFile, Exited)
                          | Killed s' \<Rightarrow> (unlink_quietly pf s' pidFile, Exited)
                          | KilledSelf s' \<Rightarrow> (s', Signalled)))
               else (s, Exited)))"

text \<open>
  The process id a lock file of \<open>hooks/stop.js\<close> records, when the file exists,
  can be read, parses as JSON and has a numeric \<open>pid\<close>; the number a PID file of
  \<open>stop_osgrep.js\<close> records, when the hook input names a session, the file of the
  session exists and \<open>parseInt\<close> finds a number in it.
\<close>

definition lock_pid :: "platform \<Rightarrow> os_state \<Rightarrow> string \<Rightarrow> js_number option" where
  "lock_pid pf s lockPath =
     (case files s lockPath of
        None \<Rightarrow> None
      | Some Unreadable \<Rightarrow> None
      | Some (Content content) \<Rightarrow>
          (case json_parse pf content of
             None \<Rightarrow> None
           | Some data \<Rightarrow>
               (case pid_field data of
                  Some (JNumber pid) \<Rightarrow> Some pid
                | _ \<Rightarrow> None)))"

definition pid_file_number :: "os_state \<Rightarrow> string \<Rightarrow> js_number option" where
  "pid_file_number s pidFile =
     (case files s pidFile of
        None \<Rightarrow> None
      | Some Unreadable \<Rightarrow> None
      | Some (Content content) \<Rightarrow>
          (if parseInt10 content = NaN then None else Some (parseInt10 content)))"

definition osgrep_pid_number :: "platform \<Rightarrow> string option \<Rightarrow> os_state \<Rightarrow> js_number option" where
  "osgrep_pid_number pf stdin s =
     (case (case stdin of None \<Rightarrow> None | Some raw \<Rightarrow> json_parse pf raw) of
        None \<Rightarrow> None
      | Some hookData \<Rightarrow>
          (case get_property ''session_id'' hookData of
             Returned (Some sid) \<Rightarrow>
               (if json_truthy sid then pid_file_number s (osgrep_pid_file pf sid) else None)
           | _ \<Rightarrow> None))"

text \<open>
  An example: \<open>pkill\<close> is installed and signals every process whose command line
  contains the pattern, \<open>kill\<close> signals the process with the given id if there is one;
  one \<open>osgrep serve\<close> and an editor are running.
\<close>

fun contains :: "string \<Rightarrow> string \<Rightarrow> bool" where
  "contains pat [] = (pat = [])"
| "contains pat (c # cs) = (take (length pat) (c # cs) = pat \<or> contains pat cs)"

definition example_json_parse :: "string \<Rightarrow> json option" where
  "example_json_parse text =
     (if text = ''{}'' then Some (JObject [])
      else if text = ''null'' then Some JNull
      else if text = ''{\"session_id\":\"s1\"}'' then Some (JObject [(''session_id'', JString ''s1'')])
      else None)"

definition example_kill :: "(int \<times> string) list \<Rightarrow> int \<Rightarrow> kill_result" where
  "example_kill ps i = (if i \<in> set (map fst ps) then KillSignals [i] False else KillFails)"

definition example_pkill :: "string \<Rightarrow> (int \<times> string) list \<Rightarrow> int list" where
  "example_pkill pat ps = map fst (filter (\<lambda>p. contains pat (snd p)) ps)"

definition example_platform :: platform where
  "example_platform =
     \<lparr> tmpdir = ''/tmp'',
       hook_cwd = ''/repo'',
       join_paths = (\<lambda>ps. foldr (\<lambda>p acc. if acc = [] then p else p @ ''/'' @ acc) ps []),
       json_parse = example_json_parse,
       js_to_string = (\<lambda>v. ''[object Object]''),
       sys_kill = example_kill,
       unlink_fails = (\<lambda>p. False),
       pkill = example_pkill \<rparr>"

definition example_os :: "(string \<Rightarrow> file_entry option) \<Rightarrow> os_state" where
  "example_os fs =
     \<lparr> files = fs,
       procs = [(4242, ''node /usr/bin/osgrep serve''), (77, ''vim notes.txt'')],
       signalled = [] \<rparr>"

definition no_files :: "string \<Rightarrow> file_entry option" where
  "no_files p = None"

definition junk_pid_file :: "string \<Rightarrow> file_entry option" where
  "junk_pid_file p =
     (if p = ''/tmp/osgrep-watch-s1.pid'' then Some (Content ''not a pid'') else None)"

section \<open>The initial sync engine and the per-file upload (module \<open>./utils\<close>)\<close>

text \<open>
  \<open>initialSync\<close> and \<open>uploadFile\<close> are imported from \<open>./utils\<close>; what follows
  is their behaviour as the specification describes it. A file is named by its path
  relative to the sync root. The remote store holds the documents of one collection, an
  external identifier with the fingerprint the document was indexed under; it may fail
  to list its documents and may fail to index a document; it records the calls made.
\<close>

datatype remote_call =
    ListDocuments string
  | IndexDocument string string
  | DeleteDocument string string
  | MaterializeTextIndex string
  | MaterializeVectorIndex string

record remote_store =
  documents :: "(string \<times> string) list"
  listing_fails :: bool
  index_fails :: "string \<Rightarrow> bool"
  calls :: "remote_call list"

text \<open>
  The filesystem collaborator: the files the walk yields, the ignore classifier, and
  the fingerprint (of the content, or the modification metadata) of the file at a path.
\<close>

record local_tree =
  walk :: "string list"
  isIgnored :: "string \<Rightarrow> bool"
  fingerprint :: "string \<Rightarrow> string"

text \<open>
  Modelled from the spec: the derivation of the external identifier inside
  \<open>uploadFile\<close> and \<open>initialSync\<close> (module \<open>./utils\<close>); the identifier is the
  root-relative path string.
\<close>

definition externalId :: "string \<Rightarrow> string" where
  "externalId relativePath = relativePath"

text \<open>
  Modelled from the spec: \<open>listDocuments\<close>, \<open>indexDocument\<close>, \<open>deleteDocument\<close>
  and the two index materializations of the remote store client. Indexing under an
  identifier that is present replaces the document; a failed call changes nothing.
\<close>

definition listDocuments :: "string \<Rightarrow> remote_store \<Rightarrow> (string \<times> string) list option" where
  "listDocuments coll st = (if listing_fails st then None else Some (documents st))"

definition indexDocument :: "string \<Rightarrow> string \<Rightarrow> string \<Rightarrow> remote_store \<Rightarrow> remote_store \<times> bool" where
  "indexDocument coll ident fp st =
     (let st' = st\<lparr>calls := calls st @ [IndexDocument coll ident]\<rparr>
      in if index_fails st ident then (st', False)
         else (st'\<lparr>documents := AList.update ident fp (documents st)\<rparr>, True))"

definition deleteDocument :: "string \<Rightarrow> string \<Rightarrow> remote_store \<Rightarrow> remote_store" where
  "deleteDocument coll ident st =
     st\<lparr>calls := calls st @ [DeleteDocument coll ident],
        documents := AList.delete ident (documents st)\<rparr>"

definition materialize :: "string \<Rightarrow> remote_store \<Rightarrow> remote_store" where
  "materialize coll st =
     st\<lparr>calls := calls st @ [MaterializeTextIndex coll, MaterializeVectorIndex coll]\<rparr>"

text \<open>
  Modelled from the spec: \<open>uploadFile\<close> of \<open>./utils\<close>, the per-file index operation
  shared by the initial sync and the watcher; the result says whether the upload
  succeeded.
\<close>

definition uploadFile :: "string \<Rightarrow> string \<Rightarrow> string \<Rightarrow> remote_store \<Rightarrow> remote_store \<times> bool" where
  "uploadFile coll relativePath fp st = indexDocument coll (externalId relativePath) fp st"

text \<open>
  Modelled from the spec: the dedup test of step 3 of the initial sync
  (\<open>initialSync\<close> of \<open>./utils\<close>). A file needs no upload when a full reindex is
  not forced and the listing taken at the start of the pass has its identifier with the
  fingerprint the file has now.
\<close>

definition needs_upload :: "local_tree \<Rightarrow> bool \<Rightarrow> (string \<times> string) list \<Rightarrow> string \<Rightarrow> bool" where
  "needs_upload tree forceFullReindex listing p =
     (forceFullReindex \<or> map_of listing (externalId p) \<noteq> Some (fingerprint tree p))"

text \<open>
  Modelled from the spec: step 3 of the initial sync for one candidate path, on the
  store and the count of successful uploads; a failed upload is not counted.
\<close>

definition sync_file ::
  "local_tree \<Rightarrow> string \<Rightarrow> bool \<Rightarrow> (string \<times> string) list \<Rightarrow> string \<Rightarrow>
   remote_store \<times> nat \<Rightarrow> remote_store \<times> nat" where
  "sync_file tree coll forceFullReindex listing p acc =
     (if \<not> needs_upload tree forceFullReindex listing p then acc
      else (case uploadFile coll p (fingerprint tree p) (fst acc) of
              (st', ok) \<Rightarrow> (st', if ok then snd acc + 1 else snd acc)))"

text \<open>
  Modelled from the spec: step 2 of the initial sync, the walked paths that the ignore
  classifier does not exclude.
\<close>

definition candidate_files :: "local_tree \<Rightarrow> string list" where
  "candidate_files tree = filter (\<lambda>p. \<not> isIgnored tree p) (walk tree)"

text \<open>
  Modelled from the spec: step 4 of the initial sync, the remote identifiers with no
  local file observed during the walk, each once.
\<close>

definition stale_identifiers :: "(string \<times> string) list \<Rightarrow> string list \<Rightarrow> string list" where
  "stale_identifiers listing candidates =
     filter (\<lambda>i. i \<notin> set (map externalId candidates)) (remdups (map fst listing))"

datatype sync_error = ListingFailed

record sync_result =
  total :: nat
  processed :: nat
  indexed :: nat

text \<open>
  Modelled from the spec: \<open>initialSync\<close> of \<open>./utils\<close> (section 4.3): list the
  remote documents (a failure is fatal for the pass), walk the tree and drop the
  ignored paths, index what is missing or changed, delete what is stale, and
  materialize both indexes if a document was indexed or deleted.
\<close>

definition initialSync ::
  "remote_store \<Rightarrow> local_tree \<Rightarrow> string \<Rightarrow> bool \<Rightarrow> sync_error + (sync_result \<times> remote_store)" where
  "initialSync st tree coll forceFullReindex =
     (case listDocuments coll st of
        None \<Rightarrow> Inl ListingFailed
      | Some listing \<Rightarrow>
          (let st0 = st\<lparr>calls := calls st @ [ListDocuments coll]\<rparr>;
               candidates = candidate_files tree;
               uploads = fold (sync_file tree coll forceFullReindex listing) candidates (st0, 0);
               stale = stale_identifiers listing candidates;
               st2 = fold (deleteDocument coll) stale (fst uploads);
               st3 = (if 0 < snd uploads \<or> stale \<noteq> [] then materialize coll st2 else st2)
           in Inr (\<lparr>total = length candidates, processed = length candidates,
                     indexed = snd uploads\<rparr>, st3)))"

text \<open>The calls a pass has added to the record of the store.\<close>

definition new_calls :: "remote_store \<Rightarrow> remote_store \<Rightarrow> remote_call list" where
  "new_calls before after = drop (length (calls before)) (calls after)"

fun is_index_call :: "remote_call \<Rightarrow> bool" where
  "is_index_call (IndexDocument coll ident) = True"
| "is_index_call _ = False"

fun is_materialize_call :: "remote_call \<Rightarrow> bool" where
  "is_materialize_call (MaterializeTextIndex coll) = True"
| "is_materialize_call (MaterializeVectorIndex coll) = True"
| "is_materialize_call _ = False"


text \<open>
  Modelled from the spec: the remote calls behind the effects of the watcher callback;
  \<open>uploadFile(mxbai, store, filePath, filename)\<close> indexes the file under the
  identifier of its root-relative name.
\<close>

fun watcher_remote_calls :: "effect list \<Rightarrow> remote_call list" where
  "watcher_remote_calls [] = []"
| "watcher_remote_calls (UploadFile store filePath filename # es) =
     IndexDocument store (externalId filename) # watcher_remote_calls es"
| "watcher_remote_calls (e # es) = watcher_remote_calls es"

text \<open>
  Examples: a tree with \<open>a.ts\<close> and the ignored \<open>dist/bundle.js\<close>; an empty store,
  and an empty store that fails to index \<open>a.ts\<close>.
\<close>

definition example_ignore :: "string \<Rightarrow> bool" where
  "example_ignore p = (take 5 p = ''dist/'')"

definition example_fingerprint :: "string \<Rightarrow> string" where
  "example_fingerprint p = ''v1-'' @ p"

definition example_tree :: local_tree where
  "example_tree =
     \<lparr> walk = [''a.ts'', ''dist/bundle.js''],
       isIgnored = example_ignore,
       fingerprint = example_fingerprint \<rparr>"

definition ignored_tree :: local_tree where
  "ignored_tree =
     \<lparr> walk = [''dist/bundle.js''],
       isIgnored = example_ignore,
       fingerprint = example_fingerprint \<rparr>"

definition never_fails :: "string \<Rightarrow> bool" where
  "never_fails ident = False"


definition empty_store :: remote_store where
  "empty_store =
     \<lparr> documents = [], listing_fails = False, index_fails = never_fails, calls = [] \<rparr>"


text \<open>
  A world in which everything under \<open>/repo/dist/\<close> is ignored, and a store that
  holds two documents.
\<close>

definition ignoring_world :: world where
  "ignoring_world =
     \<lparr> path_join = (\<lambda>a b. a @ ''/'' @ b),
       statSync = (\<lambda>p. Stats True),
       isIgnoredByGit = (\<lambda>p r. Returned (take 11 p = ''/repo/dist/'')),
       upload_rejects = (\<lambda>s p f. False) \<rparr>"

definition indexed_store :: remote_store where
  "indexed_store =
     \<lparr> documents = [(''a.ts'', ''v1-a.ts''), (''b.ts'', ''v1-b.ts'')], listing_fails = False,
       index_fails = never_fails, calls = [] \<rparr>"



text \<open>Whether an effect is a call of \<open>uploadFile\<close> for the file at a given path.\<close>

fun uploads_path :: "string \<Rightarrow> effect \<Rightarrow> bool" where
  "uploads_path filePath (UploadFile store p filename) = (p = filePath)"
| "uploads_path filePath _ = False"

section \<open>Properties of store names\<close>

lemma code_unit_char_of: "n < 256 \<Longrightarrow> code_unit (char_of n) = n"
  by (simp add: code_unit_def)

lemma code_unit_hyphen: "code_unit CHR ''-'' = 45"
  by (simp add: code_unit_def)

lemma sanitize_char_alphabet:
  "store_id_char (lower_char (if not_store_char c then CHR ''-'' else c))"
proof (cases "not_store_char c")
  case True
  then show ?thesis
    by (simp add: lower_char_def store_id_char_def is_upper_ascii_def is_upper_latin1_def
        code_unit_hyphen)
next
  case False
  then consider "is_lower_ascii c" | "is_upper_ascii c" | "is_digit c" | "c = CHR ''-''"
    by (auto simp: not_store_char_def)
  then show ?thesis
  proof cases
    case 1
    then show ?thesis
      using False
      by (auto simp: lower_char_def store_id_char_def is_lower_ascii_def is_upper_ascii_def
          is_upper_latin1_def)
  next
    case 2
    then have "code_unit (char_of (code_unit c + 32)) = code_unit c + 32"
      by (intro code_unit_char_of) (simp add: is_upper_ascii_def)
    with 2 show ?thesis
      using False
      by (simp add: lower_char_def store_id_char_def is_lower_ascii_def is_upper_ascii_def)
  next
    case 3
    then show ?thesis
      using False
      by (auto simp: lower_char_def store_id_char_def is_digit_def is_upper_ascii_def
          is_upper_latin1_def)
  next
    case 4
    then show ?thesis
      by (simp add: lower_char_def store_id_char_def is_upper_ascii_def is_upper_latin1_def
          code_unit_hyphen)
  qed
qed

lemma sanitize_char_fixed:
  assumes "store_id_char c"
  shows "lower_char (if not_store_char c then CHR ''-'' else c) = c"
proof -
  from assms have keep: "\<not> not_store_char c"
    by (auto simp: store_id_char_def not_store_char_def)
  from assms have "\<not> is_upper_ascii c \<and> \<not> is_upper_latin1 c"
    by (auto simp: store_id_char_def is_lower_ascii_def is_digit_def is_upper_ascii_def
        is_upper_latin1_def code_unit_hyphen)
  with keep show ?thesis
    by (simp add: lower_char_def)
qed

lemma sanitizeStoreName_chars: "c \<in> set (sanitizeStoreName name) \<Longrightarrow> store_id_char c"
  by (auto simp: sanitizeStoreName_def toLowerCase_def sanitize_char_alphabet)

lemma sanitizeStoreName_fixed:
  "(\<And>c. c \<in> set s \<Longrightarrow> store_id_char c) \<Longrightarrow> sanitizeStoreName s = s"
  unfolding sanitizeStoreName_def toLowerCase_def map_map comp_def
  by (rule map_idI) (simp add: sanitize_char_fixed)

text \<open>
  Claim C10. For every input string the result of \<open>sanitizeStoreName\<close> contains only
  lowercase ASCII letters, digits and hyphens, and sanitizing the result again returns
  it unchanged.
\<close>

theorem sanitizeStoreName_idempotent_alphabet:
  "list_all store_id_char (sanitizeStoreName name) \<and>
   sanitizeStoreName (sanitizeStoreName name) = sanitizeStoreName name"
proof
  show "list_all store_id_char (sanitizeStoreName name)"
    by (simp add: list_all_iff sanitizeStoreName_chars)
  show "sanitizeStoreName (sanitizeStoreName name) = sanitizeStoreName name"
    by (rule sanitizeStoreName_fixed) (rule sanitizeStoreName_chars)
qed

theorem sanitizeStoreName_idempotent_alphabet_witness:
  "sanitizeStoreName ''My Repo_v2.GIT'' = ''my-repo-v2-git'' \<and>
   list_all store_id_char ''my-repo-v2-git'' \<and>
   sanitizeStoreName ''my-repo-v2-git'' = ''my-repo-v2-git''"
proof -
  have e: "sanitizeStoreName ''My Repo_v2.GIT'' = ''my-repo-v2-git''"
    by code_simp
  show ?thesis
    using sanitizeStoreName_idempotent_alphabet [of "''My Repo_v2.GIT''"] e by simp
qed

section \<open>Properties of the automatic store id\<close>

lemma truthy_the: "truthy x \<Longrightarrow> x = Some (the x) \<and> the x \<noteq> []"
  by (cases x) auto




lemma extract_ssh_example:
  "extractRepoInfoFromUrl ''git@github.com:owner/repo.git'' = ''owner-repo''"
  by code_simp















section \<open>Properties of the watcher\<close>

lemma watch_callback_no_filename:
  "rawFilename ev = None \<or> rawFilename ev = Some [] \<Longrightarrow>
   watch_callback w watchRoot store ev = ([], Completed)"
  by (auto simp: watch_callback_def)

lemma watch_callback_not_a_file:
  assumes "rawFilename ev = Some filename"
    and "statSync w (path_join w watchRoot filename) = StatThrows \<or>
         statSync w (path_join w watchRoot filename) = Stats False"
  shows "list_all (\<lambda>e. \<not> is_upload e) (fst (watch_callback w watchRoot store ev))"
  using assms by (auto simp: watch_callback_def Let_def)

lemma watch_callback_upload_completed:
  assumes "UploadFile s p f \<in> set (fst (watch_callback w watchRoot store ev))"
  shows "snd (watch_callback w watchRoot store ev) = Completed"
  using assms
  by (auto simp: watch_callback_def Let_def
      split: option.splits if_splits stat_result.splits call.splits)

lemma watch_callback_upload_args:
  assumes "UploadFile s p f \<in> set (fst (watch_callback w watchRoot store ev))"
  shows "s = store \<and> rawFilename ev = Some f \<and> p = path_join w watchRoot f \<and>
         statSync w p = Stats True \<and> isIgnoredByGit w p watchRoot = Returned False"
  using assms
  by (auto simp: watch_callback_def Let_def
      split: option.splits if_splits stat_result.splits call.splits)

lemma watch_callback_rejection_logged:
  assumes "UploadFile s p f \<in> set (fst (watch_callback w watchRoot store ev))"
    and "upload_rejects w s p f"
  shows "ConsoleError p \<in> set (fst (watch_callback w watchRoot store ev))"
  using assms
  by (auto simp: watch_callback_def Let_def
      split: option.splits if_splits stat_result.splits call.splits)

lemma watch_loop_continues:
  assumes "snd (watch_callback w watchRoot store ev) = Completed"
  shows "watch_loop watchRoot store ((w, ev) # rest) =
         (fst (watch_callback w watchRoot store ev) @ fst (watch_loop watchRoot store rest),
          snd (watch_loop watchRoot store rest))"
  using assms by (cases "watch_callback w watchRoot store ev") (auto split: prod.splits)

text \<open>
  Claim C9. For every watcher event whose reported filename is null, undefined or
  empty, the callback returns without throwing and without any filesystem stat, ignore
  check or remote call: it does nothing at all.
\<close>

theorem watch_callback_without_filename:
  assumes "rawFilename ev = None \<or> rawFilename ev = Some []"
  shows "snd (watch_callback w watchRoot store ev) = Completed \<and>
         list_all (\<lambda>e. \<not> is_stat_or_ignore_check e \<and> \<not> is_upload e)
           (fst (watch_callback w watchRoot store ev)) \<and>
         fst (watch_callback w watchRoot store ev) = []"
  using assms by (simp add: watch_callback_no_filename)

theorem watch_callback_without_filename_witness:
  "watch_callback (example_world False) ''/repo'' ''mgrep''
     \<lparr> eventType = ''rename'', rawFilename = None \<rparr> = ([], Completed) \<and>
   watch_callback (example_world False) ''/repo'' ''mgrep''
     \<lparr> eventType = ''rename'', rawFilename = Some [] \<rparr> = ([], Completed)"
proof -
  have a: "watch_callback (example_world False) ''/repo'' ''mgrep''
     \<lparr> eventType = ''rename'', rawFilename = None \<rparr> = ([], Completed)"
    using watch_callback_without_filename
      [of "\<lparr> eventType = ''rename'', rawFilename = None \<rparr>" "example_world False" "''/repo''" "''mgrep''"]
    by (simp add: prod_eq_iff)
  have b: "watch_callback (example_world False) ''/repo'' ''mgrep''
     \<lparr> eventType = ''rename'', rawFilename = Some [] \<rparr> = ([], Completed)"
    using watch_callback_without_filename
      [of "\<lparr> eventType = ''rename'', rawFilename = Some [] \<rparr>" "example_world False" "''/repo''" "''mgrep''"]
    by (simp add: prod_eq_iff)
  from a b show ?thesis by simp
qed

text \<open>
  Claim C4. For every watcher notification whose resolved path does not exist on disk
  (\<open>statSync\<close> throws) or is not a regular file when the event is handled, the handler
  issues no remote call for that event: \<open>uploadFile\<close> is not called, and the handler
  returns after the stat.
\<close>

theorem watch_callback_missing_or_not_regular:
  assumes "rawFilename ev = Some filename"
    and "statSync w (path_join w watchRoot filename) = StatThrows \<or>
         statSync w (path_join w watchRoot filename) = Stats False"
  shows "list_all (\<lambda>e. \<not> is_upload e) (fst (watch_callback w watchRoot store ev)) \<and>
         snd (watch_callback w watchRoot store ev) = Completed"
proof
  show "list_all (\<lambda>e. \<not> is_upload e) (fst (watch_callback w watchRoot store ev))"
    using assms by (rule watch_callback_not_a_file)
  show "snd (watch_callback w watchRoot store ev) = Completed"
    using assms by (auto simp: watch_callback_def Let_def)
qed

theorem watch_callback_missing_or_not_regular_witness:
  "list_all (\<lambda>e. \<not> is_upload e)
     (fst (watch_callback (example_world False) ''/repo'' ''mgrep'' (change_of ''gone.ts''))) \<and>
   list_all (\<lambda>e. \<not> is_upload e)
     (fst (watch_callback (example_world False) ''/repo'' ''mgrep'' (change_of ''dir''))) \<and>
   \<not> list_all (\<lambda>e. \<not> is_upload e)
     (fst (watch_callback (example_world False) ''/repo'' ''mgrep'' (change_of ''a.ts'')))"
proof -
  have a: "list_all (\<lambda>e. \<not> is_upload e)
     (fst (watch_callback (example_world False) ''/repo'' ''mgrep'' (change_of ''gone.ts'')))"
    using watch_callback_missing_or_not_regular
      [of "change_of ''gone.ts''" "''gone.ts''" "example_world False" "''/repo''" "''mgrep''"]
    by (simp add: change_of_def example_world_def)
  have b: "list_all (\<lambda>e. \<not> is_upload e)
     (fst (watch_callback (example_world False) ''/repo'' ''mgrep'' (change_of ''dir'')))"
    using watch_callback_missing_or_not_regular
      [of "change_of ''dir''" "''dir''" "example_world False" "''/repo''" "''mgrep''"]
    by (simp add: change_of_def example_world_def)
  have c: "\<not> list_all (\<lambda>e. \<not> is_upload e)
     (fst (watch_callback (example_world False) ''/repo'' ''mgrep'' (change_of ''a.ts'')))"
    by (simp add: watch_callback_def change_of_def example_world_def Let_def)
  from a b c show ?thesis by simp
qed

lemma example_rejected:
  "watch_callback (example_world True) ''/repo'' ''mgrep'' (change_of ''a.ts'') =
     ([ConsoleLog ''change'' ''/repo/a.ts'', StatSync ''/repo/a.ts'',
       IgnoreCheck ''/repo/a.ts'' ''/repo'', UploadFile ''mgrep'' ''/repo/a.ts'' ''a.ts'',
       ConsoleError ''/repo/a.ts''], Completed)"
  by (simp add: watch_callback_def change_of_def example_world_def Let_def)

lemma example_accepted:
  "watch_callback (example_world False) ''/repo'' ''mgrep'' (change_of ''a.ts'') =
     ([ConsoleLog ''change'' ''/repo/a.ts'', StatSync ''/repo/a.ts'',
       IgnoreCheck ''/repo/a.ts'' ''/repo'', UploadFile ''mgrep'' ''/repo/a.ts'' ''a.ts''],
      Completed)"
  by (simp add: watch_callback_def change_of_def example_world_def Let_def)

text \<open>
  Claim C5. A failure of a watcher-triggered upload is caught and logged and does not
  terminate the watch loop: when the promise of \<open>uploadFile\<close> rejects, the callback
  has completed, the error is written to the console, and the events that follow are
  handled as they would be otherwise.
\<close>

theorem watch_upload_failure_contained:
  assumes "UploadFile s p f \<in> set (fst (watch_callback w watchRoot store ev))"
    and "upload_rejects w s p f"
  shows "snd (watch_callback w watchRoot store ev) = Completed \<and>
         ConsoleError p \<in> set (fst (watch_callback w watchRoot store ev)) \<and>
         watch_loop watchRoot store ((w, ev) # rest) =
           (fst (watch_callback w watchRoot store ev) @ fst (watch_loop watchRoot store rest),
            snd (watch_loop watchRoot store rest))"
proof -
  have c: "snd (watch_callback w watchRoot store ev) = Completed"
    using assms(1) by (rule watch_callback_upload_completed)
  have l: "ConsoleError p \<in> set (fst (watch_callback w watchRoot store ev))"
    using assms by (rule watch_callback_rejection_logged)
  from c l watch_loop_continues [OF c] show ?thesis by simp
qed

theorem watch_upload_failure_contained_witness:
  "watch_loop ''/repo'' ''mgrep''
     [(example_world True, change_of ''a.ts''), (example_world False, change_of ''a.ts'')] =
   ([ConsoleLog ''change'' ''/repo/a.ts'', StatSync ''/repo/a.ts'',
     IgnoreCheck ''/repo/a.ts'' ''/repo'', UploadFile ''mgrep'' ''/repo/a.ts'' ''a.ts'',
     ConsoleError ''/repo/a.ts'',
     ConsoleLog ''change'' ''/repo/a.ts'', StatSync ''/repo/a.ts'',
     IgnoreCheck ''/repo/a.ts'' ''/repo'', UploadFile ''mgrep'' ''/repo/a.ts'' ''a.ts''],
    Completed)"
proof -
  have u: "UploadFile ''mgrep'' ''/repo/a.ts'' ''a.ts'' \<in>
        set (fst (watch_callback (example_world True) ''/repo'' ''mgrep'' (change_of ''a.ts'')))"
    by (simp add: example_rejected)
  have r: "upload_rejects (example_world True) ''mgrep'' ''/repo/a.ts'' ''a.ts''"
    by (simp add: example_world_def)
  have rest: "watch_loop ''/repo'' ''mgrep'' [(example_world False, change_of ''a.ts'')] =
     (fst (watch_callback (example_world False) ''/repo'' ''mgrep'' (change_of ''a.ts'')), Completed)"
    by (simp add: example_accepted)
  show ?thesis
    using watch_upload_failure_contained [OF u r, of "[(example_world False, change_of ''a.ts'')]"]
    by (simp only: rest example_rejected example_accepted fst_conv snd_conv append.simps)
qed

section \<open>Properties of the stop hooks\<close>

lemma signalled_unlink_quietly:
  "signalled (unlink_quietly pf s p) = signalled s \<and> procs (unlink_quietly pf s p) = procs s"
  by (auto simp: unlink_quietly_def unlinkSync_def split: option.splits if_splits)

lemma process_kill_NaN: "process_kill pf s NaN = KillThrew"
  by (simp add: process_kill_def)

lemma stop_main_no_lock:
  assumes "stop_lock_path pf stdin = Some lockPath"
    and "lock_pid pf s lockPath = None"
  shows "stop_main pf stdin s =
           (pkill_fallback pf (case files s lockPath of None \<Rightarrow> s
                                | Some entry \<Rightarrow> unlink_quietly pf s lockPath), Exited)"
proof (cases "files s lockPath")
  case None
  with assms(1) show ?thesis
    by (simp add: stop_main_def)
next
  case (Some entry)
  with assms(2) have nokill:
    "(case entry of
        Unreadable \<Rightarrow> (s, False, True)
      | Content content \<Rightarrow>
          (case json_parse pf content of
             None \<Rightarrow> (s, False, True)
           | Some data \<Rightarrow>
               (case pid_field data of
                  Some (JNumber pid) \<Rightarrow> killPid pf s pid
                | _ \<Rightarrow> (s, False, True)))) = (s, False, True)"
    by (auto simp: lock_pid_def split: option.splits json.splits file_entry.splits)
  with assms(1) Some show ?thesis
    by (simp add: stop_main_def)
qed

lemma stop_main_no_lock_signalled:
  assumes "stop_lock_path pf stdin = Some lockPath"
    and "lock_pid pf s lockPath = None"
  shows "signalled (fst (stop_main pf stdin s)) = signalled s @ pkill pf ''osgrep serve'' (procs s)"
  unfolding stop_main_no_lock [OF assms]
  by (simp add: pkill_fallback_def signalled_unlink_quietly split: option.splits)

lemma stop_osgrep_no_pid:
  assumes "osgrep_pid_number pf stdin s = None"
  shows "snd (stop_osgrep pf stdin s) = Exited \<and>
         signalled (fst (stop_osgrep pf stdin s)) = signalled s"
proof (cases "case stdin of None \<Rightarrow> None | Some raw \<Rightarrow> json_parse pf raw")
  case None
  then show ?thesis by (simp add: stop_osgrep_def)
next
  case (Some hookData)
  show ?thesis
  proof (cases "get_property ''session_id'' hookData")
    case Threw
    with Some show ?thesis by (simp add: stop_osgrep_def)
  next
    case (Returned sidopt)
    show ?thesis
    proof (cases sidopt)
      case None
      with Some Returned show ?thesis by (simp add: stop_osgrep_def)
    next
      case (Some sid)
      note sid = Some
      show ?thesis
      proof (cases "json_truthy sid")
        case False
        with \<open>(case stdin of None \<Rightarrow> None | Some raw \<Rightarrow> json_parse pf raw) = Some hookData\<close>
          Returned sid show ?thesis
          by (simp add: stop_osgrep_def)
      next
        case True
        let ?f = "osgrep_pid_file pf sid"
        from assms \<open>(case stdin of None \<Rightarrow> None | Some raw \<Rightarrow> json_parse pf raw) = Some hookData\<close>
          Returned sid True
        have n: "pid_file_number s ?f = None"
          by (simp add: osgrep_pid_number_def)
        show ?thesis
        proof (cases "files s ?f")
          case None
          with \<open>(case stdin of None \<Rightarrow> None | Some raw \<Rightarrow> json_parse pf raw) = Some hookData\<close>
            Returned sid True show ?thesis
            by (simp add: stop_osgrep_def Let_def)
        next
          case (Some entry)
          have "entry = Unreadable \<or>
                (\<exists>content. entry = Content content \<and>
                   process_kill pf s (parseInt10 content) = KillThrew)"
          proof (cases entry)
            case Unreadable
            then show ?thesis by simp
          next
            case (Content content)
            with n Some have "parseInt10 content = NaN"
              by (auto simp: pid_file_number_def split: if_splits)
            with Content show ?thesis
              by (simp add: process_kill_NaN)
          qed
          with \<open>(case stdin of None \<Rightarrow> None | Some raw \<Rightarrow> json_parse pf raw) = Some hookData\<close>
            Returned sid True Some show ?thesis
            by (auto simp: stop_osgrep_def Let_def signalled_unlink_quietly)
        qed
      qed
    qed
  qed
qed

text \<open>
  A hook payload \<open>null\<close> makes \<open>main()\<close> of \<open>hooks/stop.js\<close> throw at
  \<open>payload.cwd\<close>, before the lock file is looked at.
\<close>

lemma stop_main_null_payload:
  "stop_main example_platform (Some ''null'') s = (s, Crashed)"
  by (simp add: stop_main_def stop_lock_path_def readPayload_def example_platform_def
      example_json_parse_def)

lemma example_lock_path: "stop_lock_path example_platform None = Some ''/repo/.osgrep/server.json''"
  by (simp add: stop_lock_path_def readPayload_def example_platform_def)

text \<open>
  Claim C8, as stated, fails for \<open>hooks/stop.js\<close>: with no lock file at all, its
  fall-back \<open>pkill -f "osgrep serve"\<close> terminates a running \<open>osgrep serve\<close>.
\<close>

theorem stop_signals_counterexample:
  "stop_lock_path example_platform None = Some ''/repo/.osgrep/server.json'' \<and>
   files (example_os no_files) ''/repo/.osgrep/server.json'' = None \<and>
   signalled (example_os no_files) = [] \<and>
   stop_main example_platform None (example_os no_files) =
     (\<lparr> files = no_files,
        procs = [(4242, ''node /usr/bin/osgrep serve''), (77, ''vim notes.txt'')],
        signalled = [4242] \<rparr>, Exited)"
proof -
  have p: "pkill example_platform = example_pkill"
    by (simp add: example_platform_def)
  show ?thesis
    by (simp add: stop_main_def example_lock_path example_os_def no_files_def
        pkill_fallback_def p example_pkill_def)
qed

text \<open>
  Claim C8, amended. For an invocation of the stop action whose hook payload yields a
  working directory, a lock or PID file that is absent, unreadable or unparseable is
  not an error: the stop action completes without failing and sends no signal to a
  process id taken from such a file. \<open>stop_osgrep.js\<close> then signals no process at
  all; the only processes \<open>hooks/stop.js\<close> signals are those that its fall-back
  \<open>pkill -f "osgrep serve"\<close> signals.
\<close>

theorem stop_without_valid_lock_file:
  "(stop_lock_path pf stdin = Some lockPath \<and> lock_pid pf s lockPath = None \<longrightarrow>
      snd (stop_main pf stdin s) = Exited \<and>
      signalled (fst (stop_main pf stdin s)) = signalled s @ pkill pf ''osgrep serve'' (procs s)) \<and>
   (osgrep_pid_number pf stdin s = None \<longrightarrow>
      snd (stop_osgrep pf stdin s) = Exited \<and>
      signalled (fst (stop_osgrep pf stdin s)) = signalled s)"
proof (intro conjI impI)
  assume a: "stop_lock_path pf stdin = Some lockPath \<and> lock_pid pf s lockPath = None"
  then show "snd (stop_main pf stdin s) = Exited"
    by (simp add: stop_main_no_lock)
  from a show "signalled (fst (stop_main pf stdin s)) =
      signalled s @ pkill pf ''osgrep serve'' (procs s)"
    by (simp add: stop_main_no_lock_signalled)
next
  assume "osgrep_pid_number pf stdin s = None"
  then show "snd (stop_osgrep pf stdin s) = Exited"
    and "signalled (fst (stop_osgrep pf stdin s)) = signalled s"
    by (simp_all add: stop_osgrep_no_pid)
qed

theorem stop_without_valid_lock_file_witness:
  "snd (stop_main example_platform None (example_os no_files)) = Exited \<and>
   signalled (fst (stop_main example_platform None (example_os no_files))) = [4242] \<and>
   snd (stop_osgrep example_platform (Some ''{\"session_id\":\"s1\"}'') (example_os junk_pid_file)) = Exited \<and>
   signalled (fst (stop_osgrep example_platform (Some ''{\"session_id\":\"s1\"}'')
                     (example_os junk_pid_file))) = []"
proof -
  have a: "lock_pid example_platform (example_os no_files) ''/repo/.osgrep/server.json'' = None"
    by (simp add: lock_pid_def example_os_def no_files_def)
  have p: "parseInt10 ''not a pid'' = NaN"
    by code_simp
  have f: "osgrep_pid_file example_platform (JString ''s1'') = ''/tmp/osgrep-watch-s1.pid''"
    by (simp add: osgrep_pid_file_def example_platform_def)
  have j: "json_parse example_platform ''{\"session_id\":\"s1\"}'' =
           Some (JObject [(''session_id'', JString ''s1'')])"
    by (simp add: example_platform_def example_json_parse_def)
  have b: "osgrep_pid_number example_platform (Some ''{\"session_id\":\"s1\"}'')
             (example_os junk_pid_file) = None"
    by (simp add: osgrep_pid_number_def j pid_file_number_def f example_os_def junk_pid_file_def p)
  have m: "pkill example_platform ''osgrep serve'' (procs (example_os no_files)) = [4242]"
    by (simp add: example_os_def example_platform_def example_pkill_def)
  have s0: "signalled (example_os no_files) = [] \<and> signalled (example_os junk_pid_file) = []"
    by (simp add: example_os_def)
  show ?thesis
    using stop_without_valid_lock_file
      [of example_platform None "''/repo/.osgrep/server.json''" "example_os no_files"]
      stop_without_valid_lock_file
      [of example_platform "Some ''{\"session_id\":\"s1\"}''" "''/repo/.osgrep/server.json''"
          "example_os junk_pid_file"]
      example_lock_path a b m s0
    by simp
qed

section \<open>Properties of the initial sync and of the identifiers\<close>

lemma sync_file_skip:
  "\<not> needs_upload tree force listing p \<Longrightarrow> sync_file tree coll force listing p acc = acc"
  by (simp add: sync_file_def)

lemma sync_file_upload:
  assumes "needs_upload tree force listing p"
  shows "sync_file tree coll force listing p acc =
         (fst (indexDocument coll (externalId p) (fingerprint tree p) (fst acc)),
          if index_fails (fst acc) (externalId p) then snd acc else snd acc + 1)"
  using assms
  by (auto simp: sync_file_def uploadFile_def indexDocument_def Let_def)

lemma indexDocument_fields:
  "calls (fst (indexDocument coll i fp st)) = calls st @ [IndexDocument coll i]"
  "index_fails (fst (indexDocument coll i fp st)) = index_fails st"
  "listing_fails (fst (indexDocument coll i fp st)) = listing_fails st"
  "documents (fst (indexDocument coll i fp st)) =
     (if index_fails st i then documents st else AList.update i fp (documents st))"
  by (simp_all add: indexDocument_def Let_def)

lemma uploads_calls:
  "calls (fst (fold (sync_file tree coll force listing) cands acc)) =
   calls (fst acc) @
   map (\<lambda>p. IndexDocument coll (externalId p)) (filter (needs_upload tree force listing) cands)"
proof (induction cands arbitrary: acc)
  case Nil
  then show ?case by simp
next
  case (Cons p ps)
  show ?case
  proof (cases "needs_upload tree force listing p")
    case True
    then show ?thesis
      by (simp add: Cons.IH sync_file_upload indexDocument_fields)
  next
    case False
    then show ?thesis
      by (simp add: Cons.IH sync_file_skip)
  qed
qed


lemma uploads_none:
  assumes "\<And>p. p \<in> set cands \<Longrightarrow> \<not> needs_upload tree force listing p"
  shows "fold (sync_file tree coll force listing) cands acc = acc"
  using assms by (induction cands arbitrary: acc) (simp_all add: sync_file_skip)


lemma deletes_fields:
  "calls (fold (deleteDocument coll) ids st) = calls st @ map (DeleteDocument coll) ids \<and>
   index_fails (fold (deleteDocument coll) ids st) = index_fails st \<and>
   listing_fails (fold (deleteDocument coll) ids st) = listing_fails st"
  by (induction ids arbitrary: st) (simp_all add: deleteDocument_def)



lemma initialSync_fails: "listing_fails st \<Longrightarrow> initialSync st tree coll force = Inl ListingFailed"
  by (simp add: initialSync_def listDocuments_def)

lemma initialSync_Inr:
  assumes "initialSync st tree coll force = Inr (res, st')"
  shows "\<not> listing_fails st"
  using assms by (auto simp: initialSync_def listDocuments_def split: if_splits)

lemma initialSync_result:
  assumes "\<not> listing_fails st"
  shows "initialSync st tree coll force =
     Inr (\<lparr>total = length (candidate_files tree), processed = length (candidate_files tree),
           indexed = snd (fold (sync_file tree coll force (documents st)) (candidate_files tree)
                            (st\<lparr>calls := calls st @ [ListDocuments coll]\<rparr>, 0))\<rparr>,
          (if 0 < snd (fold (sync_file tree coll force (documents st)) (candidate_files tree)
                            (st\<lparr>calls := calls st @ [ListDocuments coll]\<rparr>, 0)) \<or>
              stale_identifiers (documents st) (candidate_files tree) \<noteq> []
           then materialize coll else (\<lambda>s. s))
            (fold (deleteDocument coll) (stale_identifiers (documents st) (candidate_files tree))
               (fst (fold (sync_file tree coll force (documents st)) (candidate_files tree)
                            (st\<lparr>calls := calls st @ [ListDocuments coll]\<rparr>, 0)))))"
  using assms by (simp add: initialSync_def listDocuments_def Let_def)

lemma initialSync_calls:
  assumes "initialSync st tree coll force = Inr (res, st')"
  shows "\<exists>tail. new_calls st st' =
           ListDocuments coll #
           map (\<lambda>p. IndexDocument coll (externalId p))
             (filter (needs_upload tree force (documents st)) (candidate_files tree)) @
           map (DeleteDocument coll) (stale_identifiers (documents st) (candidate_files tree)) @
           tail \<and>
         (tail = [] \<or> tail = [MaterializeTextIndex coll, MaterializeVectorIndex coll])"
proof -
  have ok: "\<not> listing_fails st"
    using assms by (rule initialSync_Inr)
  from assms initialSync_result [OF ok, of tree coll force] show ?thesis
    by (auto simp: new_calls_def deletes_fields uploads_calls materialize_def if_distribR)
qed




lemma map_of_keys: "map_of xs k \<noteq> None \<longleftrightarrow> k \<in> set (map fst xs)"
  by (simp add: map_of_eq_None_iff)



lemma quiet_pass:
  assumes "\<not> listing_fails st"
    and "\<forall>q \<in> set (candidate_files tree). \<not> needs_upload tree force (documents st) q"
    and "stale_identifiers (documents st) (candidate_files tree) = []"
  shows "initialSync st tree coll force =
         Inr (\<lparr>total = length (candidate_files tree), processed = length (candidate_files tree),
               indexed = 0\<rparr>, st\<lparr>calls := calls st @ [ListDocuments coll]\<rparr>)"
proof -
  have "fold (sync_file tree coll force (documents st)) (candidate_files tree)
          (st\<lparr>calls := calls st @ [ListDocuments coll]\<rparr>, 0) =
        (st\<lparr>calls := calls st @ [ListDocuments coll]\<rparr>, 0)"
    by (rule uploads_none) (simp add: assms(2))
  then show ?thesis
    using assms(3) by (simp add: initialSync_result [OF assms(1)])
qed




lemma stale_of_empty: "stale_identifiers [] cands = []"
  by (simp add: stale_identifiers_def)

text \<open>
  Claim C1. For every directory tree that yields no candidate file after
  ignore-filtering, a pass of \<open>initialSync\<close> against an empty collection returns
  \<open>total = 0\<close> and \<open>indexed = 0\<close>; its only remote call is the listing, so no
  document is indexed and neither the full-text nor the vector index is materialized.
\<close>

theorem initialSync_nothing_to_do:
  assumes "candidate_files tree = []"
    and "listDocuments coll st = Some []"
  shows "initialSync st tree coll force =
           Inr (\<lparr>total = 0, processed = 0, indexed = 0\<rparr>,
                st\<lparr>calls := calls st @ [ListDocuments coll]\<rparr>) \<and>
         list_all (\<lambda>c. \<not> is_index_call c \<and> \<not> is_materialize_call c)
           (new_calls st (st\<lparr>calls := calls st @ [ListDocuments coll]\<rparr>))"
proof -
  from assms(2) have ok: "\<not> listing_fails st" and empty: "documents st = []"
    by (auto simp: listDocuments_def split: if_splits)
  have "initialSync st tree coll force =
           Inr (\<lparr>total = 0, processed = 0, indexed = 0\<rparr>,
                st\<lparr>calls := calls st @ [ListDocuments coll]\<rparr>)"
    using quiet_pass [OF ok, of tree force coll] assms(1) empty
    by (simp add: stale_of_empty)
  then show ?thesis
    by (simp add: new_calls_def)
qed

lemma ignored_tree_candidates: "candidate_files ignored_tree = []"
  by (simp add: candidate_files_def ignored_tree_def example_ignore_def)

theorem initialSync_nothing_to_do_witness:
  "initialSync empty_store ignored_tree ''store'' False =
     Inr (\<lparr>total = 0, processed = 0, indexed = 0\<rparr>,
          \<lparr>documents = [], listing_fails = False, index_fails = never_fails,
            calls = [ListDocuments ''store'']\<rparr>)"
proof -
  have l: "listDocuments ''store'' empty_store = Some []"
    by (simp add: listDocuments_def empty_store_def)
  show ?thesis
    using initialSync_nothing_to_do [OF ignored_tree_candidates l, of False]
    by (simp add: empty_store_def)
qed

lemma watcher_remote_calls_append:
  "watcher_remote_calls (xs @ ys) = watcher_remote_calls xs @ watcher_remote_calls ys"
  by (induction xs rule: watcher_remote_calls.induct) simp_all

lemma watcher_remote_calls_mem:
  "IndexDocument c i \<in> set (watcher_remote_calls es) \<Longrightarrow>
   \<exists>p f. UploadFile c p f \<in> set es \<and> i = externalId f"
  by (induction es rule: watcher_remote_calls.induct) auto

lemma watch_loop_upload_origin:
  "UploadFile s p f \<in> set (fst (watch_loop watchRoot store evs)) \<Longrightarrow>
   \<exists>w ev. (w, ev) \<in> set evs \<and> UploadFile s p f \<in> set (fst (watch_callback w watchRoot store ev))"
proof (induction evs)
  case Nil
  then show ?case by simp
next
  case (Cons wev evs)
  obtain w ev where wev: "wev = (w, ev)" by (cases wev)
  obtain effs out where cb: "watch_callback w watchRoot store ev = (effs, out)"
    by (cases "watch_callback w watchRoot store ev")
  show ?case
  proof (cases out)
    case Uncaught
    with Cons.prems wev cb show ?thesis
      by (intro exI [of _ w] exI [of _ ev]) auto
  next
    case Completed
    obtain effs' out' where lp: "watch_loop watchRoot store evs = (effs', out')"
      by (cases "watch_loop watchRoot store evs")
    from Cons.prems wev cb Completed lp
    have "UploadFile s p f \<in> set effs \<or> UploadFile s p f \<in> set effs'"
      by auto
    then show ?thesis
    proof
      assume "UploadFile s p f \<in> set effs"
      with wev cb show ?thesis
        by (intro exI [of _ w] exI [of _ ev]) auto
    next
      assume "UploadFile s p f \<in> set effs'"
      with lp Cons.IH wev show ?thesis by auto
    qed
  qed
qed

lemma initialSync_index_origin:
  assumes "initialSync st tree coll force = Inr (res, st')"
    and "IndexDocument c i \<in> set (new_calls st st')"
  shows "\<exists>p \<in> set (walk tree). \<not> isIgnored tree p \<and> i = externalId p \<and> c = coll"
proof -
  from initialSync_calls [OF assms(1)] assms(2)
  have "\<exists>p \<in> set (candidate_files tree). i = externalId p \<and> c = coll"
    by auto
  then show ?thesis
    by (auto simp: candidate_files_def)
qed

lemma uploads_path_iff: "uploads_path filePath e \<longleftrightarrow> (\<exists>s f. e = UploadFile s filePath f)"
  by (cases e) auto

text \<open>
  Claim C2. For a file whose path the ignore classifier marks as ignored, no
  \<open>indexDocument\<close> call is issued: not by a pass of the initial sync, and not in
  response to watcher events, however many events report the file and whenever they
  arrive, since the callback never calls \<open>uploadFile\<close> for a path that
  \<open>isIgnoredByGit\<close> reports as ignored.
\<close>

theorem ignored_file_never_indexed:
  "(isIgnored tree p \<and> initialSync st tree coll force = Inr (res, st') \<longrightarrow>
      IndexDocument c (externalId p) \<notin> set (new_calls st st')) \<and>
   ((\<forall>(w, ev) \<in> set evs. \<forall>f. rawFilename ev = Some f \<and> path_join w watchRoot f = filePath \<longrightarrow>
        isIgnoredByGit w filePath watchRoot = Returned True) \<longrightarrow>
      list_all (\<lambda>e. \<not> uploads_path filePath e) (fst (watch_loop watchRoot store evs))) \<and>
   ((\<forall>(w, ev) \<in> set evs. rawFilename ev = Some p \<longrightarrow>
        isIgnoredByGit w (path_join w watchRoot p) watchRoot = Returned True) \<longrightarrow>
      IndexDocument c (externalId p) \<notin>
        set (watcher_remote_calls (fst (watch_loop watchRoot store evs))))"
proof (intro conjI impI)
  assume a: "isIgnored tree p \<and> initialSync st tree coll force = Inr (res, st')"
  show "IndexDocument c (externalId p) \<notin> set (new_calls st st')"
  proof
    assume "IndexDocument c (externalId p) \<in> set (new_calls st st')"
    with a initialSync_index_origin [of st tree coll force res st' c "externalId p"]
    obtain q where "\<not> isIgnored tree q" and "externalId p = externalId q"
      by auto
    with a show False by (simp add: externalId_def)
  qed
next
  assume a: "\<forall>(w, ev) \<in> set evs. \<forall>f. rawFilename ev = Some f \<and> path_join w watchRoot f = filePath \<longrightarrow>
        isIgnoredByGit w filePath watchRoot = Returned True"
  show "list_all (\<lambda>e. \<not> uploads_path filePath e) (fst (watch_loop watchRoot store evs))"
    unfolding list_all_iff
  proof
    fix e assume e: "e \<in> set (fst (watch_loop watchRoot store evs))"
    show "\<not> uploads_path filePath e"
    proof
      assume "uploads_path filePath e"
      then obtain s f where "e = UploadFile s filePath f"
        by (auto simp: uploads_path_iff)
      with e have u: "UploadFile s filePath f \<in> set (fst (watch_loop watchRoot store evs))"
        by simp
      from watch_loop_upload_origin [OF u] obtain w ev where
        mem: "(w, ev) \<in> set evs" and
        cb: "UploadFile s filePath f \<in> set (fst (watch_callback w watchRoot store ev))"
        by blast
      from watch_callback_upload_args [OF cb]
      have r: "rawFilename ev = Some f \<and> path_join w watchRoot f = filePath"
        and n: "isIgnoredByGit w filePath watchRoot = Returned False"
        by auto
      from a mem have "case (w, ev) of (w, ev) \<Rightarrow>
          \<forall>f. rawFilename ev = Some f \<and> path_join w watchRoot f = filePath \<longrightarrow>
              isIgnoredByGit w filePath watchRoot = Returned True"
        by (rule bspec)
      with r have "isIgnoredByGit w filePath watchRoot = Returned True"
        by simp
      with n show False by simp
    qed
  qed
next
  assume a: "\<forall>(w, ev) \<in> set evs. rawFilename ev = Some p \<longrightarrow>
        isIgnoredByGit w (path_join w watchRoot p) watchRoot = Returned True"
  show "IndexDocument c (externalId p) \<notin>
        set (watcher_remote_calls (fst (watch_loop watchRoot store evs)))"
  proof
    assume "IndexDocument c (externalId p) \<in>
        set (watcher_remote_calls (fst (watch_loop watchRoot store evs)))"
    then obtain q f where u: "UploadFile c q f \<in> set (fst (watch_loop watchRoot store evs))"
      and f: "externalId p = externalId f"
      using watcher_remote_calls_mem by blast
    from f have pf: "f = p" by (simp add: externalId_def)
    from watch_loop_upload_origin [OF u] obtain w ev where
      mem: "(w, ev) \<in> set evs" and
      cb: "UploadFile c q f \<in> set (fst (watch_callback w watchRoot store ev))"
      by blast
    from watch_callback_upload_args [OF cb] pf
    have "rawFilename ev = Some p" and "isIgnoredByGit w (path_join w watchRoot p) watchRoot = Returned False"
      by auto
    with a mem show False by auto
  qed
qed

lemma example_tree_sync:
  "initialSync empty_store example_tree ''store'' False =
     Inr (\<lparr>total = 1, processed = 1, indexed = 1\<rparr>,
          \<lparr>documents = [(''a.ts'', ''v1-a.ts'')], listing_fails = False, index_fails = never_fails,
            calls = [ListDocuments ''store'', IndexDocument ''store'' ''a.ts'',
                     MaterializeTextIndex ''store'', MaterializeVectorIndex ''store'']\<rparr>)"
  by (simp add: initialSync_def listDocuments_def empty_store_def example_tree_def
      candidate_files_def example_ignore_def sync_file_def needs_upload_def uploadFile_def
      indexDocument_def externalId_def never_fails_def stale_identifiers_def materialize_def
      example_fingerprint_def Let_def)

theorem ignored_file_never_indexed_witness:
  "IndexDocument ''store'' (externalId ''dist/bundle.js'') \<notin>
     set [ListDocuments ''store'', IndexDocument ''store'' ''a.ts'',
          MaterializeTextIndex ''store'', MaterializeVectorIndex ''store''] \<and>
   list_all (\<lambda>e. \<not> uploads_path ''/repo/dist/bundle.js'' e)
     (fst (watch_loop ''/repo'' ''store''
            [(ignoring_world, change_of ''dist/bundle.js''), (ignoring_world, change_of ''a.ts''),
             (ignoring_world, change_of ''dist/bundle.js'')])) \<and>
   IndexDocument ''store'' (externalId ''dist/bundle.js'') \<notin>
     set (watcher_remote_calls (fst (watch_loop ''/repo'' ''store''
            [(ignoring_world, change_of ''dist/bundle.js''), (ignoring_world, change_of ''a.ts''),
             (ignoring_world, change_of ''dist/bundle.js'')])))"
proof -
  have i: "isIgnored example_tree ''dist/bundle.js''"
    by (simp add: example_tree_def example_ignore_def)
  have w: "\<forall>(w, ev) \<in> set [(ignoring_world, change_of ''dist/bundle.js''),
             (ignoring_world, change_of ''a.ts''), (ignoring_world, change_of ''dist/bundle.js'')].
           rawFilename ev = Some ''dist/bundle.js'' \<longrightarrow>
           isIgnoredByGit w (path_join w ''/repo'' ''dist/bundle.js'') ''/repo'' = Returned True"
    by (simp add: ignoring_world_def change_of_def)
  have v: "\<forall>(w, ev) \<in> set [(ignoring_world, change_of ''dist/bundle.js''),
             (ignoring_world, change_of ''a.ts''), (ignoring_world, change_of ''dist/bundle.js'')].
           \<forall>f. rawFilename ev = Some f \<and> path_join w ''/repo'' f = ''/repo/dist/bundle.js'' \<longrightarrow>
           isIgnoredByGit w ''/repo/dist/bundle.js'' ''/repo'' = Returned True"
    by (simp add: ignoring_world_def change_of_def)
  have n: "new_calls empty_store
       \<lparr>documents = [(''a.ts'', ''v1-a.ts'')], listing_fails = False, index_fails = never_fails,
            calls = [ListDocuments ''store'', IndexDocument ''store'' ''a.ts'',
                     MaterializeTextIndex ''store'', MaterializeVectorIndex ''store'']\<rparr> =
       [ListDocuments ''store'', IndexDocument ''store'' ''a.ts'',
                     MaterializeTextIndex ''store'', MaterializeVectorIndex ''store'']"
    by (simp add: new_calls_def empty_store_def)
  have t: "(isIgnored example_tree ''dist/bundle.js'' \<and>
       initialSync empty_store example_tree ''store'' False =
       Inr (\<lparr>total = 1, processed = 1, indexed = 1\<rparr>,
          \<lparr>documents = [(''a.ts'', ''v1-a.ts'')], listing_fails = False, index_fails = never_fails,
            calls = [ListDocuments ''store'', IndexDocument ''store'' ''a.ts'',
                     MaterializeTextIndex ''store'', MaterializeVectorIndex ''store'']\<rparr>))"
    using i example_tree_sync by simp
  note inst = ignored_file_never_indexed
      [of example_tree "''dist/bundle.js''" empty_store "''store''" False
          "\<lparr>total = 1, processed = 1, indexed = 1\<rparr>"
          "\<lparr>documents = [(''a.ts'', ''v1-a.ts'')], listing_fails = False, index_fails = never_fails,
            calls = [ListDocuments ''store'', IndexDocument ''store'' ''a.ts'',
                     MaterializeTextIndex ''store'', MaterializeVectorIndex ''store'']\<rparr>"
          "''store''"
          "[(ignoring_world, change_of ''dist/bundle.js''), (ignoring_world, change_of ''a.ts''),
             (ignoring_world, change_of ''dist/bundle.js'')]"
          "''/repo''" "''/repo/dist/bundle.js''" "''store''"]
  from inst t have c1: "IndexDocument ''store'' (externalId ''dist/bundle.js'') \<notin>
     set [ListDocuments ''store'', IndexDocument ''store'' ''a.ts'',
          MaterializeTextIndex ''store'', MaterializeVectorIndex ''store'']"
    unfolding n by blast
  from inst v have c2: "list_all (\<lambda>e. \<not> uploads_path ''/repo/dist/bundle.js'' e)
     (fst (watch_loop ''/repo'' ''store''
            [(ignoring_world, change_of ''dist/bundle.js''), (ignoring_world, change_of ''a.ts''),
             (ignoring_world, change_of ''dist/bundle.js'')]))"
    by blast
  from inst w have c3: "IndexDocument ''store'' (externalId ''dist/bundle.js'') \<notin>
     set (watcher_remote_calls (fst (watch_loop ''/repo'' ''store''
            [(ignoring_world, change_of ''dist/bundle.js''), (ignoring_world, change_of ''a.ts''),
             (ignoring_world, change_of ''dist/bundle.js'')])))"
    by blast
  from c1 c2 c3 show ?thesis by blast
qed






lemma uploadFile_documents:
  assumes "\<not> index_fails st (externalId p)"
  shows "map_of (documents (fst (uploadFile coll p fp st))) (externalId q) =
         (if q = p then Some fp else map_of (documents st) (externalId q))"
  using assms
  by (simp add: uploadFile_def indexDocument_fields update_conv' externalId_def)

lemma uploadFile_distinct:
  "distinct (map fst (documents st)) \<Longrightarrow>
   distinct (map fst (documents (fst (uploadFile coll p fp st))))"
  by (simp add: uploadFile_def indexDocument_fields distinct_update)

text \<open>
  Claim C6. The external identifier is a function of the root-relative path of a
  file: two distinct root-relative paths have distinct identifiers; the per-file upload,
  the watcher and the initial sync all index a file under the identifier of its
  root-relative path; and an upload replaces the document of its own file only, so
  that no identifier occurs twice in the collection.
\<close>

theorem externalId_of_relative_path:
  "(externalId p = externalId q \<longleftrightarrow> p = q) \<and>
   calls (fst (uploadFile coll p fp st)) = calls st @ [IndexDocument coll (externalId p)] \<and>
   watcher_remote_calls [UploadFile coll filePath p] = [IndexDocument coll (externalId p)] \<and>
   (initialSync st tree coll force = Inr (res, st') \<and> IndexDocument c i \<in> set (new_calls st st') \<longrightarrow>
      (\<exists>r \<in> set (candidate_files tree). i = externalId r)) \<and>
   (\<not> index_fails st (externalId p) \<longrightarrow>
      map_of (documents (fst (uploadFile coll p fp st))) (externalId q) =
        (if q = p then Some fp else map_of (documents st) (externalId q))) \<and>
   (distinct (map fst (documents st)) \<longrightarrow>
      distinct (map fst (documents (fst (uploadFile coll p fp st)))))"
proof (intro conjI impI)
  show "externalId p = externalId q \<longleftrightarrow> p = q"
    by (simp add: externalId_def)
  show "calls (fst (uploadFile coll p fp st)) = calls st @ [IndexDocument coll (externalId p)]"
    by (simp add: uploadFile_def indexDocument_fields)
  show "watcher_remote_calls [UploadFile coll filePath p] = [IndexDocument coll (externalId p)]"
    by simp
next
  assume a: "initialSync st tree coll force = Inr (res, st') \<and> IndexDocument c i \<in> set (new_calls st st')"
  have "\<exists>r \<in> set (walk tree). \<not> isIgnored tree r \<and> i = externalId r \<and> c = coll"
    using a initialSync_index_origin [of st tree coll force res st' c i] by simp
  then show "\<exists>r \<in> set (candidate_files tree). i = externalId r"
    by (auto simp: candidate_files_def)
next
  assume "\<not> index_fails st (externalId p)"
  then show "map_of (documents (fst (uploadFile coll p fp st))) (externalId q) =
        (if q = p then Some fp else map_of (documents st) (externalId q))"
    by (rule uploadFile_documents)
next
  assume "distinct (map fst (documents st))"
  then show "distinct (map fst (documents (fst (uploadFile coll p fp st))))"
    by (rule uploadFile_distinct)
qed

theorem externalId_of_relative_path_witness:
  "externalId ''a.ts'' \<noteq> externalId ''b.ts'' \<and>
   map_of (documents (fst (uploadFile ''store'' ''a.ts'' ''v2-a.ts'' indexed_store)))
     (externalId ''a.ts'') = Some ''v2-a.ts'' \<and>
   map_of (documents (fst (uploadFile ''store'' ''a.ts'' ''v2-a.ts'' indexed_store)))
     (externalId ''b.ts'') = Some ''v1-b.ts'' \<and>
   distinct (map fst (documents (fst (uploadFile ''store'' ''a.ts'' ''v2-a.ts'' indexed_store)))) \<and>
   (\<exists>r \<in> set (candidate_files example_tree). ''a.ts'' = externalId r)"
proof -
  have f: "\<not> index_fails indexed_store (externalId ''a.ts'')"
    by (simp add: indexed_store_def never_fails_def)
  have d: "distinct (map fst (documents indexed_store))"
    by (simp add: indexed_store_def)
  have b: "map_of (documents indexed_store) (externalId ''b.ts'') = Some ''v1-b.ts''"
    by (simp add: indexed_store_def externalId_def)
  have n: "IndexDocument ''store'' ''a.ts'' \<in> set (new_calls empty_store
       \<lparr>documents = [(''a.ts'', ''v1-a.ts'')], listing_fails = False, index_fails = never_fails,
            calls = [ListDocuments ''store'', IndexDocument ''store'' ''a.ts'',
                     MaterializeTextIndex ''store'', MaterializeVectorIndex ''store'']\<rparr>)"
    by (simp add: new_calls_def empty_store_def)
  have a: "externalId ''a.ts'' \<noteq> externalId ''b.ts''"
    using externalId_of_relative_path [of "''a.ts''" "''b.ts''"] by simp
  have u: "map_of (documents (fst (uploadFile ''store'' ''a.ts'' ''v2-a.ts'' indexed_store)))
     (externalId ''a.ts'') = Some ''v2-a.ts''"
    using externalId_of_relative_path [of "''a.ts''" "''a.ts''" "''store''" "''v2-a.ts''" indexed_store] f
    by simp
  have k: "map_of (documents (fst (uploadFile ''store'' ''a.ts'' ''v2-a.ts'' indexed_store)))
     (externalId ''b.ts'') = Some ''v1-b.ts''"
    using externalId_of_relative_path [of "''a.ts''" "''b.ts''" "''store''" "''v2-a.ts''" indexed_store] f b
    by simp
  have s: "distinct (map fst (documents (fst (uploadFile ''store'' ''a.ts'' ''v2-a.ts'' indexed_store))))"
    using externalId_of_relative_path [of "''a.ts''" "''b.ts''" "''store''" "''v2-a.ts''" indexed_store] d
    by simp
  have o: "\<exists>r \<in> set (candidate_files example_tree). ''a.ts'' = externalId r"
    using externalId_of_relative_path
      [of "''a.ts''" "''b.ts''" "''store''" "''v2-a.ts''" empty_store "''/repo/a.ts''"
          example_tree False "\<lparr>total = 1, processed = 1, indexed = 1\<rparr>"
          "\<lparr>documents = [(''a.ts'', ''v1-a.ts'')], listing_fails = False, index_fails = never_fails,
            calls = [ListDocuments ''store'', IndexDocument ''store'' ''a.ts'',
                     MaterializeTextIndex ''store'', MaterializeVectorIndex ''store'']\<rparr>"
          "''store''" "''a.ts''"]
      example_tree_sync n
    by simp
  from a u k s o show ?thesis by simp
qed

end
